theory Spec2Isabelle
  imports Main
begin

section \<open>Python values, exceptions and calls\<close>

text \<open>
  The module \<^verbatim>\<open>polyfactory/fields.py\<close> stores Python objects and calls Python callables.
  A value is one of the shapes below; \<open>PObj\<close> is an opaque object, known by its identity.
\<close>

datatype pyval =
    PNone
  | PBool bool
  | PInt int
  | PStr string
  | PList "pyval list"
  | PDict "(string \<times> pyval) list"
  | PObj nat

text \<open>
  The truth value Python gives an object in \<^verbatim>\<open>if x:\<close>: \<^verbatim>\<open>None\<close>, \<^verbatim>\<open>False\<close>, \<^verbatim>\<open>0\<close> and
  the empty string, list and dict are false, everything else is true.
\<close>

fun truthy :: "pyval \<Rightarrow> bool" where
  "truthy PNone = False"
| "truthy (PBool b) = b"
| "truthy (PInt i) = (i \<noteq> 0)"
| "truthy (PStr s) = (s \<noteq> [])"
| "truthy (PList xs) = (xs \<noteq> [])"
| "truthy (PDict kvs) = (kvs \<noteq> [])"
| "truthy (PObj a) = True"

text \<open>
  Exceptions are values. \<open>ParameterError\<close> is the one exception class the module imports
  and raises; the other constructors stand for what a called function may raise.
\<close>

datatype exn =
    ParameterError string
  | TypeError string
  | ValueError string
  | KeyError string

text \<open>
  Keyword arguments (\<^verbatim>\<open>**kwargs\<close>) are a dict with string keys, kept in insertion order.
  A call \<^verbatim>\<open>f(*args, **kwargs)\<close> runs in the state \<open>'s\<close> of everything outside the
  descriptors, may change it, and either returns a value (\<open>Inr\<close>) or raises (\<open>Inl\<close>).
\<close>

type_synonym pykwargs = "(string \<times> pyval) list"

type_synonym 's outcome = "(exn + pyval) \<times> 's"

type_synonym 's callable = "pyval list \<Rightarrow> pykwargs \<Rightarrow> 's \<Rightarrow> 's outcome"

text \<open>\<^verbatim>\<open>class WrappedCallable(TypedDict): value: Callable\<close>\<close>

record 'c WrappedCallable =
  wc_value :: 'c

section \<open>The descriptors\<close>

text \<open>
  Every method is written in state-passing form: it takes the object \<open>self\<close> and the outside
  state, and returns its outcome, the object as the method leaves it, and the new outside
  state. The fields are the \<^verbatim>\<open>__slots__\<close> of each class, prefixed with the class name.
\<close>

subsection \<open>\<^verbatim>\<open>Use\<close>\<close>

record 's Use =
  Use_fn :: "('s callable) WrappedCallable"
  Use_kwargs :: pykwargs
  Use_args :: "pyval list"

text \<open>
  \<^verbatim>\<open>def __init__(self, fn, *args, **kwargs)\<close>: three assignments, nothing else.
\<close>

definition Use_init :: "'s callable \<Rightarrow> pyval list \<Rightarrow> pykwargs \<Rightarrow> 's \<Rightarrow> 's Use \<times> 's" where
  "Use_init fn args kwargs s =
     (\<lparr>Use_fn = \<lparr>wc_value = fn\<rparr>, Use_kwargs = kwargs, Use_args = args\<rparr>, s)"

text \<open>
  \<^verbatim>\<open>return cast("T", self.fn["value"](*self.args, **self.kwargs))\<close>; \<^verbatim>\<open>cast\<close> returns its
  second argument as it is.
\<close>

definition Use_to_value :: "'s Use \<Rightarrow> 's \<Rightarrow> (exn + pyval) \<times> 's Use \<times> 's" where
  "Use_to_value self s =
     (case wc_value (Use_fn self) (Use_args self) (Use_kwargs self) s of
        (r, s') \<Rightarrow> (r, self, s'))"

subsection \<open>\<^verbatim>\<open>PostGenerated\<close>\<close>

record 's PostGenerated =
  PostGenerated_fn :: "('s callable) WrappedCallable"
  PostGenerated_kwargs :: pykwargs
  PostGenerated_args :: "pyval list"

definition PostGenerated_init ::
  "'s callable \<Rightarrow> pyval list \<Rightarrow> pykwargs \<Rightarrow> 's \<Rightarrow> 's PostGenerated \<times> 's" where
  "PostGenerated_init fn args kwargs s =
     (\<lparr>PostGenerated_fn = \<lparr>wc_value = fn\<rparr>, PostGenerated_kwargs = kwargs,
       PostGenerated_args = args\<rparr>, s)"

text \<open>\<^verbatim>\<open>return self.fn["value"](name, values, *self.args, **self.kwargs)\<close>\<close>

definition PostGenerated_to_value ::
  "'s PostGenerated \<Rightarrow> pyval \<Rightarrow> pyval \<Rightarrow> 's \<Rightarrow> (exn + pyval) \<times> 's PostGenerated \<times> 's" where
  "PostGenerated_to_value self name values s =
     (case wc_value (PostGenerated_fn self) (name # values # PostGenerated_args self)
             (PostGenerated_kwargs self) s of
        (r, s') \<Rightarrow> (r, self, s'))"

subsection \<open>\<^verbatim>\<open>Fixture\<close>\<close>

text \<open>
  Modelled from the spec: the factory class that the registry holds is not part of this
  module. The spec gives its interface: \<^verbatim>\<open>build(**kwargs) -> object\<close> and
  \<^verbatim>\<open>batch(size, **kwargs) -> sequence of object\<close>. Both are calls like any other, so they
  may change the outside state and may raise. A factory is a class object, which Python
  counts as true.
\<close>

record 's BaseFactory =
  build :: "pykwargs \<Rightarrow> 's \<Rightarrow> 's outcome"
  batch :: "pyval \<Rightarrow> pykwargs \<Rightarrow> 's \<Rightarrow> 's outcome"

text \<open>
  The fixture function is only used as a key of the registry, so it is a value of a type
  \<open>'k\<close> of identities. \<^verbatim>\<open>size\<close> is declared \<^verbatim>\<open>Optional[int]\<close> and stored unchecked, so the
  field holds any value.
\<close>

record 'k Fixture =
  Fixture_fixture :: "'k WrappedCallable"
  Fixture_size :: pyval
  Fixture_kwargs :: pykwargs

definition Fixture_init :: "'k \<Rightarrow> pyval \<Rightarrow> pykwargs \<Rightarrow> 's \<Rightarrow> 'k Fixture \<times> 's" where
  "Fixture_init fixture sz kwargs s =
     (\<lparr>Fixture_fixture = \<lparr>wc_value = fixture\<rparr>, Fixture_size = sz, Fixture_kwargs = kwargs\<rparr>, s)"

definition not_registered :: string where
  "not_registered = ''fixture has not been registered using the register_factory decorator''"

text \<open>
  The registry \<^verbatim>\<open>FactoryFixture.factory_class_map\<close> lives in \<^verbatim>\<open>polyfactory.pytest_plugin\<close>,
  outside this module; it is a parameter here, a dict from fixture functions to factory
  classes. \<^verbatim>\<open>.get\<close> gives \<^verbatim>\<open>None\<close> for a missing key, and a factory class found is true, so
  the \<^verbatim>\<open>if factory := ...\<close> separates a missing key from a present one.
\<close>

definition Fixture_to_value ::
  "('k \<rightharpoonup> 's BaseFactory) \<Rightarrow> 'k Fixture \<Rightarrow> 's \<Rightarrow> (exn + pyval) \<times> 'k Fixture \<times> 's" where
  "Fixture_to_value factory_class_map self s =
     (case factory_class_map (wc_value (Fixture_fixture self)) of
        Some factory \<Rightarrow>
          if truthy (Fixture_size self)
          then (case batch factory (Fixture_size self) (Fixture_kwargs self) s of
                  (r, s') \<Rightarrow> (r, self, s'))
          else (case build factory (Fixture_kwargs self) s of
                  (r, s') \<Rightarrow> (r, self, s'))
      | None \<Rightarrow> (Inl (ParameterError not_registered), self, s))"

section \<open>Example callables, factories and a registry\<close>

text \<open>
  Concrete inputs on which the theorems below are run. Their outside state is a trace
  (\<open>string list\<close>) to which every example function appends its name when it is called, so
  the trace after a run shows which functions ran, and how often.
\<close>

type_synonym trace = "string list"

text \<open>\<^verbatim>\<open>lambda a, b: a + b\<close>\<close>

definition add_fn :: "trace callable" where
  "add_fn args kwargs tr =
     (case (args, kwargs) of
        ([PInt a], [(k, PInt b)]) \<Rightarrow>
          if k = ''b'' then (Inr (PInt (a + b)), tr @ [''add''])
          else (Inl (TypeError ''unexpected keyword argument''), tr)
      | _ \<Rightarrow> (Inl (TypeError ''bad arguments''), tr))"

text \<open>A function that returns how many calls were made before this one.\<close>

definition tick_fn :: "trace callable" where
  "tick_fn args kwargs tr = (Inr (PInt (int (length tr))), tr @ [''tick''])"

text \<open>\<^verbatim>\<open>lambda name, vals: vals["x"] * 2\<close>\<close>

definition double_x_fn :: "trace callable" where
  "double_x_fn args kwargs tr =
     (case args of
        [name, PDict vals] \<Rightarrow>
          (case map_of vals ''x'' of
             Some (PInt x) \<Rightarrow> (Inr (PInt (x * 2)), tr @ [''double_x''])
           | Some v \<Rightarrow> (Inl (TypeError ''unsupported operand''), tr @ [''double_x''])
           | None \<Rightarrow> (Inl (KeyError ''x''), tr @ [''double_x'']))
      | _ \<Rightarrow> (Inl (TypeError ''bad arguments''), tr))"

text \<open>A function that does some work and then raises.\<close>

definition failing_fn :: "trace callable" where
  "failing_fn args kwargs tr = (Inl (ValueError ''boom''), tr @ [''failing''])"

text \<open>A factory whose objects are the dict of their build kwargs.\<close>

definition person_factory :: "trace BaseFactory" where
  "person_factory =
     \<lparr>build = (\<lambda>kwargs tr. (Inr (PDict kwargs), tr @ [''build''])),
      batch = (\<lambda>sz kwargs tr.
         case sz of
           PInt n \<Rightarrow> (Inr (PList (replicate (nat n) (PDict kwargs))), tr @ [''batch''])
         | _ \<Rightarrow> (Inl (TypeError ''size is not an integer''), tr @ [''batch'']))\<rparr>"

text \<open>
  A factory whose own fields cannot be resolved: it has a \<^verbatim>\<open>Fixture\<close> field for a factory
  that was never registered, so building it raises that field's \<^verbatim>\<open>ParameterError\<close>.
\<close>

definition broken_factory :: "trace BaseFactory" where
  "broken_factory =
     \<lparr>build = (\<lambda>kwargs tr. (Inl (ParameterError not_registered), tr @ [''broken build''])),
      batch = (\<lambda>sz kwargs tr. (Inl (ParameterError not_registered), tr @ [''broken batch'']))\<rparr>"

text \<open>The registry: identities 1 and 2 are registered, nothing else is.\<close>

definition registry :: "nat \<rightharpoonup> trace BaseFactory" where
  "registry = [1 \<mapsto> person_factory, 2 \<mapsto> broken_factory]"

definition person_kwargs :: pykwargs where
  "person_kwargs = [(''name'', PStr ''Ada'')]"

text \<open>\<^verbatim>\<open>Fixture(k, size=sz, name="Ada")\<close>\<close>

definition fixture_of :: "nat \<Rightarrow> pyval \<Rightarrow> nat Fixture" where
  "fixture_of k sz = fst (Fixture_init k sz person_kwargs ([] :: trace))"

section \<open>What the descriptors do\<close>

subsection \<open>\<^verbatim>\<open>Fixture.to_value\<close>\<close>

text \<open>
  C1. When the identity stored in a \<^verbatim>\<open>Fixture\<close> is not a key of the registry,
  \<^verbatim>\<open>to_value\<close> raises \<^verbatim>\<open>ParameterError\<close>. The outside state is the one it started in,
  whatever factories the registry holds under other keys: no build and no batch has
  run, and there is no value.
\<close>

theorem Fixture_to_value_unregistered:
  assumes "factory_class_map (wc_value (Fixture_fixture self)) = None"
  shows "Fixture_to_value factory_class_map self s
           = (Inl (ParameterError not_registered), self, s)"
  using assms by (simp add: Fixture_to_value_def)

theorem Fixture_to_value_unregistered_witness:
  "registry (wc_value (Fixture_fixture (fixture_of 7 (PInt 5)))) = None
   \<and> Fixture_to_value registry (fixture_of 7 (PInt 5)) []
       = (Inl (ParameterError not_registered), fixture_of 7 (PInt 5), [])"
proof -
  have absent: "registry (wc_value (Fixture_fixture (fixture_of 7 (PInt 5)))) = None"
    by (simp add: registry_def fixture_of_def Fixture_init_def)
  from Fixture_to_value_unregistered
         [where factory_class_map = registry and self = "fixture_of 7 (PInt 5)" and s = "[]",
          OF absent]
       absent
  show ?thesis
    by simp
qed

text \<open>
  C2. When the identity is registered and \<^verbatim>\<open>size\<close> is a positive integer \<open>n\<close>, the outcome
  of \<^verbatim>\<open>to_value\<close> (value or exception, and the state left behind) is that of the one call
  \<^verbatim>\<open>factory.batch(n, **kwargs)\<close> of the registered factory. \<^verbatim>\<open>build\<close> is not called: the
  outcome is the same whatever function the factory has as its \<^verbatim>\<open>build\<close>.
\<close>

theorem Fixture_to_value_batch:
  assumes "factory_class_map (wc_value (Fixture_fixture self)) = Some factory"
    and "Fixture_size self = PInt n"
    and "0 < n"
  shows "Fixture_to_value factory_class_map self s
           = (case batch factory (PInt n) (Fixture_kwargs self) s of (r, s') \<Rightarrow> (r, self, s'))
         \<and> Fixture_to_value
             (factory_class_map(wc_value (Fixture_fixture self) \<mapsto> factory\<lparr>build := b\<rparr>)) self s
           = Fixture_to_value factory_class_map self s"
  using assms by (simp add: Fixture_to_value_def)

theorem Fixture_to_value_batch_witness:
  "registry (wc_value (Fixture_fixture (fixture_of 1 (PInt 5)))) = Some person_factory
   \<and> Fixture_size (fixture_of 1 (PInt 5)) = PInt 5
   \<and> (0::int) < 5
   \<and> Fixture_to_value registry (fixture_of 1 (PInt 5)) []
       = (Inr (PList (replicate 5 (PDict person_kwargs))), fixture_of 1 (PInt 5), [''batch''])"
proof -
  have present: "registry (wc_value (Fixture_fixture (fixture_of 1 (PInt 5)))) = Some person_factory"
    by (simp add: registry_def fixture_of_def Fixture_init_def)
  have sz: "Fixture_size (fixture_of 1 (PInt 5)) = PInt 5"
    by (simp add: fixture_of_def Fixture_init_def)
  have pos: "(0::int) < 5"
    by simp
  have kw: "Fixture_kwargs (fixture_of 1 (PInt 5)) = person_kwargs"
    by (simp add: fixture_of_def Fixture_init_def)
  have run: "batch person_factory (PInt 5) person_kwargs []
               = (Inr (PList (replicate 5 (PDict person_kwargs))), [''batch''])"
    by (simp add: person_factory_def)
  from Fixture_to_value_batch
         [where factory_class_map = registry and self = "fixture_of 1 (PInt 5)" and s = "[]",
          OF present sz pos]
       present sz kw run
  show ?thesis
    by simp
qed

text \<open>
  C3. When the identity is registered and \<^verbatim>\<open>size\<close> is \<^verbatim>\<open>None\<close>, the outcome of
  \<^verbatim>\<open>to_value\<close> is that of the one call \<^verbatim>\<open>factory.build(**kwargs)\<close> of the registered
  factory. \<^verbatim>\<open>batch\<close> is not called: the outcome is the same whatever function the factory
  has as its \<^verbatim>\<open>batch\<close>.
\<close>

theorem Fixture_to_value_build:
  assumes "factory_class_map (wc_value (Fixture_fixture self)) = Some factory"
    and "Fixture_size self = PNone"
  shows "Fixture_to_value factory_class_map self s
           = (case build factory (Fixture_kwargs self) s of (r, s') \<Rightarrow> (r, self, s'))
         \<and> Fixture_to_value
             (factory_class_map(wc_value (Fixture_fixture self) \<mapsto> factory\<lparr>batch := b\<rparr>)) self s
           = Fixture_to_value factory_class_map self s"
  using assms by (simp add: Fixture_to_value_def)

theorem Fixture_to_value_build_witness:
  "registry (wc_value (Fixture_fixture (fixture_of 1 PNone))) = Some person_factory
   \<and> Fixture_size (fixture_of 1 PNone) = PNone
   \<and> Fixture_to_value registry (fixture_of 1 PNone) []
       = (Inr (PDict person_kwargs), fixture_of 1 PNone, [''build''])"
proof -
  have present: "registry (wc_value (Fixture_fixture (fixture_of 1 PNone))) = Some person_factory"
    by (simp add: registry_def fixture_of_def Fixture_init_def)
  have sz: "Fixture_size (fixture_of 1 PNone) = PNone"
    by (simp add: fixture_of_def Fixture_init_def)
  have kw: "Fixture_kwargs (fixture_of 1 PNone) = person_kwargs"
    by (simp add: fixture_of_def Fixture_init_def)
  have run: "build person_factory person_kwargs [] = (Inr (PDict person_kwargs), [''build''])"
    by (simp add: person_factory_def)
  from Fixture_to_value_build
         [where factory_class_map = registry and self = "fixture_of 1 PNone" and s = "[]",
          OF present sz]
       present sz kw run
  show ?thesis
    by simp
qed

text \<open>
  C9. When the identity is registered and \<^verbatim>\<open>size\<close> is the integer 0, \<^verbatim>\<open>to_value\<close> calls
  \<^verbatim>\<open>factory.build(**kwargs)\<close> and not \<^verbatim>\<open>batch\<close>: the batch branch needs a true
  \<^verbatim>\<open>size\<close>. The value or exception and the state left behind are those of the same
  descriptor with \<^verbatim>\<open>size\<close> unset.
\<close>

theorem Fixture_to_value_size_zero:
  assumes "factory_class_map (wc_value (Fixture_fixture self)) = Some factory"
    and "Fixture_size self = PInt 0"
  shows "Fixture_to_value factory_class_map self s
           = (case build factory (Fixture_kwargs self) s of (r, s') \<Rightarrow> (r, self, s'))
         \<and> Fixture_to_value
             (factory_class_map(wc_value (Fixture_fixture self) \<mapsto> factory\<lparr>batch := b\<rparr>)) self s
           = Fixture_to_value factory_class_map self s
         \<and> fst (Fixture_to_value factory_class_map self s)
           = fst (Fixture_to_value factory_class_map (self\<lparr>Fixture_size := PNone\<rparr>) s)
         \<and> snd (snd (Fixture_to_value factory_class_map self s))
           = snd (snd (Fixture_to_value factory_class_map (self\<lparr>Fixture_size := PNone\<rparr>) s))"
  using assms by (simp add: Fixture_to_value_def split: prod.splits)

theorem Fixture_to_value_size_zero_witness:
  "registry (wc_value (Fixture_fixture (fixture_of 1 (PInt 0)))) = Some person_factory
   \<and> Fixture_size (fixture_of 1 (PInt 0)) = PInt 0
   \<and> Fixture_to_value registry (fixture_of 1 (PInt 0)) []
       = (Inr (PDict person_kwargs), fixture_of 1 (PInt 0), [''build''])"
proof -
  have present: "registry (wc_value (Fixture_fixture (fixture_of 1 (PInt 0)))) = Some person_factory"
    by (simp add: registry_def fixture_of_def Fixture_init_def)
  have sz: "Fixture_size (fixture_of 1 (PInt 0)) = PInt 0"
    by (simp add: fixture_of_def Fixture_init_def)
  have kw: "Fixture_kwargs (fixture_of 1 (PInt 0)) = person_kwargs"
    by (simp add: fixture_of_def Fixture_init_def)
  have run: "build person_factory person_kwargs [] = (Inr (PDict person_kwargs), [''build''])"
    by (simp add: person_factory_def)
  from Fixture_to_value_size_zero
         [where factory_class_map = registry and self = "fixture_of 1 (PInt 0)" and s = "[]",
          OF present sz]
       present sz kw run
  show ?thesis
    by simp
qed

text \<open>
  C10, as the claim states it, fails: \<^verbatim>\<open>to_value\<close> also ends in a \<^verbatim>\<open>ParameterError\<close> when the
  identity is registered and the factory's own build raises one, which \<^verbatim>\<open>to_value\<close> passes
  on. Identity 2 is registered, and resolving a descriptor for it raises \<^verbatim>\<open>ParameterError\<close>.
\<close>

theorem Fixture_ParameterError_although_registered:
  "registry (wc_value (Fixture_fixture (fixture_of 2 PNone))) = Some broken_factory
   \<and> fst (Fixture_to_value registry (fixture_of 2 PNone) [])
       = Inl (ParameterError not_registered)"
  by (simp add: Fixture_to_value_def registry_def fixture_of_def Fixture_init_def broken_factory_def)

text \<open>
  C10, amended. When the identity is absent from the registry, \<^verbatim>\<open>to_value\<close> raises
  \<^verbatim>\<open>ParameterError\<close> and calls nothing. When it is registered, the outcome of \<^verbatim>\<open>to_value\<close>
  is the outcome of the call it makes, so it raises exactly the exception that call
  raises, if any. \<^verbatim>\<open>size\<close> is never checked: \<^verbatim>\<open>__init__\<close> stores whatever it is given, and for
  every value of \<^verbatim>\<open>size\<close>, integer or not, positive or not, a true one goes to \<^verbatim>\<open>batch\<close>
  as it is and a false one selects \<^verbatim>\<open>build\<close>.
\<close>

theorem Fixture_to_value_errors:
  "(factory_class_map (wc_value (Fixture_fixture self)) = None \<longrightarrow>
      Fixture_to_value factory_class_map self s
        = (Inl (ParameterError not_registered), self, s))
   \<and> (factory_class_map (wc_value (Fixture_fixture self)) = Some factory \<longrightarrow>
        truthy (Fixture_size self) \<longrightarrow>
        Fixture_to_value factory_class_map self s
          = (fst (batch factory (Fixture_size self) (Fixture_kwargs self) s), self,
             snd (batch factory (Fixture_size self) (Fixture_kwargs self) s)))
   \<and> (factory_class_map (wc_value (Fixture_fixture self)) = Some factory \<longrightarrow>
        \<not> truthy (Fixture_size self) \<longrightarrow>
        Fixture_to_value factory_class_map self s
          = (fst (build factory (Fixture_kwargs self) s), self,
             snd (build factory (Fixture_kwargs self) s)))
   \<and> Fixture_size (fst (Fixture_init fixture sz kw s0)) = sz"
  by (simp add: Fixture_to_value_def Fixture_init_def split: prod.splits)

theorem Fixture_to_value_errors_witness:
  "Fixture_to_value registry (fixture_of 7 (PStr ''many'')) []
     = (Inl (ParameterError not_registered), fixture_of 7 (PStr ''many''), [])
   \<and> Fixture_to_value registry (fixture_of 1 (PInt (- 2))) []
     = (Inr (PList []), fixture_of 1 (PInt (- 2)), [''batch''])
   \<and> Fixture_to_value registry (fixture_of 1 (PStr ''many'')) []
     = (Inl (TypeError ''size is not an integer''), fixture_of 1 (PStr ''many''), [''batch''])
   \<and> Fixture_to_value registry (fixture_of 1 (PBool False)) []
     = (Inr (PDict person_kwargs), fixture_of 1 (PBool False), [''build''])"
proof -
  have absent: "registry (wc_value (Fixture_fixture (fixture_of 7 sz))) = None" for sz
    by (simp add: registry_def fixture_of_def Fixture_init_def)
  have present: "registry (wc_value (Fixture_fixture (fixture_of 1 sz))) = Some person_factory"
    for sz
    by (simp add: registry_def fixture_of_def Fixture_init_def)
  have fields: "Fixture_size (fixture_of k sz) = sz"
    "Fixture_kwargs (fixture_of k sz) = person_kwargs" for k sz
    by (simp_all add: fixture_of_def Fixture_init_def)
  have runs: "batch person_factory (PInt (- 2)) person_kwargs [] = (Inr (PList []), [''batch''])"
    "batch person_factory (PStr ''many'') person_kwargs []
       = (Inl (TypeError ''size is not an integer''), [''batch''])"
    "build person_factory person_kwargs [] = (Inr (PDict person_kwargs), [''build''])"
    by (simp_all add: person_factory_def)
  from Fixture_to_value_errors
         [where factory_class_map = registry and self = "fixture_of 7 (PStr ''many'')"
            and s = "[]", THEN conjunct1]
       absent
  have a: "Fixture_to_value registry (fixture_of 7 (PStr ''many'')) []
             = (Inl (ParameterError not_registered), fixture_of 7 (PStr ''many''), [])"
    by simp
  from Fixture_to_value_errors
         [where factory_class_map = registry and self = "fixture_of 1 (PInt (- 2))"
            and s = "[]" and factory = person_factory, THEN conjunct2, THEN conjunct1]
       present fields runs
  have b: "Fixture_to_value registry (fixture_of 1 (PInt (- 2))) []
             = (Inr (PList []), fixture_of 1 (PInt (- 2)), [''batch''])"
    by simp
  from Fixture_to_value_errors
         [where factory_class_map = registry and self = "fixture_of 1 (PStr ''many'')"
            and s = "[]" and factory = person_factory, THEN conjunct2, THEN conjunct1]
       present fields runs
  have c: "Fixture_to_value registry (fixture_of 1 (PStr ''many'')) []
             = (Inl (TypeError ''size is not an integer''), fixture_of 1 (PStr ''many''),
                [''batch''])"
    by simp
  from Fixture_to_value_errors
         [where factory_class_map = registry and self = "fixture_of 1 (PBool False)"
            and s = "[]" and factory = person_factory,
          THEN conjunct2, THEN conjunct2, THEN conjunct1]
       present fields runs
  have d: "Fixture_to_value registry (fixture_of 1 (PBool False)) []
             = (Inr (PDict person_kwargs), fixture_of 1 (PBool False), [''build''])"
    by simp
  from a b c d show ?thesis
    by blast
qed

subsection \<open>\<^verbatim>\<open>Use\<close> and \<^verbatim>\<open>PostGenerated\<close>\<close>

text \<open>
  C4. For a \<^verbatim>\<open>Use\<close> built from a callable \<open>f\<close>, positional arguments \<open>a\<close> and named
  arguments \<open>kw\<close>, the outcome of \<^verbatim>\<open>to_value\<close> is the outcome of the call \<open>f(*a, **kw)\<close>.
  Nothing is remembered: resolving a second time, in the state the first call left, is
  a second call of \<open>f\<close> in that state.
\<close>

theorem Use_to_value_calls_fn:
  "Use_to_value (fst (Use_init f a kw s0)) s
     = (case f a kw s of (r, s') \<Rightarrow> (r, fst (Use_init f a kw s0), s'))
   \<and> (case Use_to_value (fst (Use_init f a kw s0)) s of
         (r1, d1, s1) \<Rightarrow> (case Use_to_value d1 s1 of (r2, d2, s2) \<Rightarrow> (r1, r2, s2)))
     = (case f a kw s of
         (r1, s1) \<Rightarrow> (case f a kw s1 of (r2, s2) \<Rightarrow> (r1, r2, s2)))"
  by (simp add: Use_to_value_def Use_init_def split: prod.splits)

theorem Use_to_value_calls_fn_witness:
  "fst (Use_to_value (fst (Use_init add_fn [PInt 2] [(''b'', PInt 3)] [])) []) = Inr (PInt 5)
   \<and> (case Use_to_value (fst (Use_init tick_fn [] [] [])) [] of
         (r1, d1, s1) \<Rightarrow> (case Use_to_value d1 s1 of (r2, d2, s2) \<Rightarrow> (r1, r2, s2)))
     = (Inr (PInt 0), Inr (PInt 1), [''tick'', ''tick''])"
proof -
  have add: "add_fn [PInt 2] [(''b'', PInt 3)] [] = (Inr (PInt 5), [''add''])"
    by (simp add: add_fn_def)
  have tick: "tick_fn [] [] [] = (Inr (PInt 0), [''tick''])"
    "tick_fn [] [] [''tick''] = (Inr (PInt 1), [''tick'', ''tick''])"
    by (simp_all add: tick_fn_def)
  from Use_to_value_calls_fn [of add_fn "[PInt 2]" "[(''b'', PInt 3)]" "[]" "[]"] add
  have one: "fst (Use_to_value (fst (Use_init add_fn [PInt 2] [(''b'', PInt 3)] [])) [])
               = Inr (PInt 5)"
    by simp
  from Use_to_value_calls_fn [of tick_fn "[]" "[]" "[]" "[]", THEN conjunct2] tick
  have two: "(case Use_to_value (fst (Use_init tick_fn [] [] [])) [] of
               (r1, d1, s1) \<Rightarrow> (case Use_to_value d1 s1 of (r2, d2, s2) \<Rightarrow> (r1, r2, s2)))
             = (Inr (PInt 0), Inr (PInt 1), [''tick'', ''tick''])"
    by simp
  from one two show ?thesis
    by blast
qed

text \<open>
  C5. For a \<^verbatim>\<open>PostGenerated\<close> built from a callable \<open>f\<close>, positional arguments \<open>a\<close> and
  named arguments \<open>kw\<close>, and for every field name and mapping of resolved values, the
  outcome of \<^verbatim>\<open>to_value(name, values)\<close> is the outcome of the call
  \<open>f(name, values, *a, **kw)\<close>.
\<close>

theorem PostGenerated_to_value_calls_fn:
  "PostGenerated_to_value (fst (PostGenerated_init f a kw s0)) name values s
     = (case f (name # values # a) kw s of
          (r, s') \<Rightarrow> (r, fst (PostGenerated_init f a kw s0), s'))"
  by (simp add: PostGenerated_to_value_def PostGenerated_init_def)

theorem PostGenerated_to_value_calls_fn_witness:
  "fst (PostGenerated_to_value (fst (PostGenerated_init double_x_fn [] [] []))
          (PStr ''y'') (PDict [(''x'', PInt 10)]) [])
     = Inr (PInt 20)"
proof -
  have run: "double_x_fn [PStr ''y'', PDict [(''x'', PInt 10)]] [] []
               = (Inr (PInt 20), [''double_x''])"
    by (simp add: double_x_fn_def)
  from PostGenerated_to_value_calls_fn
         [of double_x_fn "[]" "[]" "[]" "PStr ''y''" "PDict [(''x'', PInt 10)]" "[]"] run
  show ?thesis
    by simp
qed

text \<open>
  C6. Constructing a \<^verbatim>\<open>Use\<close> or a \<^verbatim>\<open>PostGenerated\<close> stores the callable, the positional
  arguments and the named arguments as they were given. It succeeds for every callable
  and every argument list, so nothing about the callable's arity is checked, and it
  leaves the outside state as it was, which it could not do for every callable if it
  called it.
\<close>

theorem init_stores_verbatim:
  "snd (Use_init f a kw s) = s
   \<and> wc_value (Use_fn (fst (Use_init f a kw s))) = f
   \<and> Use_args (fst (Use_init f a kw s)) = a
   \<and> Use_kwargs (fst (Use_init f a kw s)) = kw
   \<and> snd (PostGenerated_init f a kw s) = s
   \<and> wc_value (PostGenerated_fn (fst (PostGenerated_init f a kw s))) = f
   \<and> PostGenerated_args (fst (PostGenerated_init f a kw s)) = a
   \<and> PostGenerated_kwargs (fst (PostGenerated_init f a kw s)) = kw"
  by (simp add: Use_init_def PostGenerated_init_def)

text \<open>
  An instance: \<^verbatim>\<open>lambda a, b: a + b\<close> wrapped with no arguments at all. Construction stores
  the empty argument lists and does not run the function (the trace stays empty); the
  missing arguments only show when the descriptor is resolved.
\<close>

theorem init_stores_verbatim_witness:
  "snd (Use_init add_fn [] [] []) = []
   \<and> Use_args (fst (Use_init add_fn [] [] [])) = []
   \<and> Use_kwargs (fst (Use_init add_fn [] [] [])) = []
   \<and> snd (PostGenerated_init tick_fn [PInt 1] [] []) = []
   \<and> PostGenerated_args (fst (PostGenerated_init tick_fn [PInt 1] [] [])) = [PInt 1]
   \<and> fst (Use_to_value (fst (Use_init add_fn [] [] [])) []) = Inl (TypeError ''bad arguments'')"
proof -
  have later: "fst (Use_to_value (fst (Use_init add_fn [] [] [])) [])
                 = Inl (TypeError ''bad arguments'')"
    by (simp add: Use_to_value_def Use_init_def add_fn_def)
  from init_stores_verbatim [of add_fn "[]" "[]" "[]"]
       init_stores_verbatim [of tick_fn "[PInt 1]" "[]" "[]"] later
  show ?thesis
    by blast
qed

subsection \<open>All three descriptors\<close>

text \<open>
  C7. When the wrapped callable of a \<^verbatim>\<open>Use\<close> or a \<^verbatim>\<open>PostGenerated\<close>, or the \<^verbatim>\<open>batch\<close> or
  \<^verbatim>\<open>build\<close> call of a \<^verbatim>\<open>Fixture\<close>'s factory, raises an exception \<open>e\<close> and leaves the state
  \<open>s'\<close>, then \<^verbatim>\<open>to_value\<close> raises the same \<open>e\<close> and leaves the same \<open>s'\<close>: the exception is
  not caught or replaced, no value is returned in its place, and the call is not made
  again.
\<close>

theorem to_value_propagates_errors:
  "(wc_value (Use_fn u) (Use_args u) (Use_kwargs u) s = (Inl e, s') \<longrightarrow>
      Use_to_value u s = (Inl e, u, s'))
   \<and> (wc_value (PostGenerated_fn p) (name # vals # PostGenerated_args p)
         (PostGenerated_kwargs p) s = (Inl e, s') \<longrightarrow>
        PostGenerated_to_value p name vals s = (Inl e, p, s'))
   \<and> (factory_class_map (wc_value (Fixture_fixture fx)) = Some factory \<longrightarrow>
        truthy (Fixture_size fx) \<longrightarrow>
        batch factory (Fixture_size fx) (Fixture_kwargs fx) s = (Inl e, s') \<longrightarrow>
        Fixture_to_value factory_class_map fx s = (Inl e, fx, s'))
   \<and> (factory_class_map (wc_value (Fixture_fixture fx)) = Some factory \<longrightarrow>
        \<not> truthy (Fixture_size fx) \<longrightarrow>
        build factory (Fixture_kwargs fx) s = (Inl e, s') \<longrightarrow>
        Fixture_to_value factory_class_map fx s = (Inl e, fx, s'))"
  by (simp add: Use_to_value_def PostGenerated_to_value_def Fixture_to_value_def)

theorem to_value_propagates_errors_witness:
  "Use_to_value (fst (Use_init failing_fn [] [] [])) []
     = (Inl (ValueError ''boom''), fst (Use_init failing_fn [] [] []), [''failing''])
   \<and> PostGenerated_to_value (fst (PostGenerated_init failing_fn [] [] []))
        (PStr ''y'') (PDict []) []
     = (Inl (ValueError ''boom''), fst (PostGenerated_init failing_fn [] [] []), [''failing''])
   \<and> Fixture_to_value registry (fixture_of 2 (PInt 3)) []
     = (Inl (ParameterError not_registered), fixture_of 2 (PInt 3), [''broken batch''])
   \<and> Fixture_to_value registry (fixture_of 2 PNone) []
     = (Inl (ParameterError not_registered), fixture_of 2 PNone, [''broken build''])"
proof -
  have use_raises:
    "wc_value (Use_fn (fst (Use_init failing_fn [] [] [])))
       (Use_args (fst (Use_init failing_fn [] [] [])))
       (Use_kwargs (fst (Use_init failing_fn [] [] []))) []
     = (Inl (ValueError ''boom''), [''failing''])"
    by (simp add: Use_init_def failing_fn_def)
  have post_raises:
    "wc_value (PostGenerated_fn (fst (PostGenerated_init failing_fn [] [] [])))
       (PStr ''y'' # PDict [] # PostGenerated_args (fst (PostGenerated_init failing_fn [] [] [])))
       (PostGenerated_kwargs (fst (PostGenerated_init failing_fn [] [] []))) []
     = (Inl (ValueError ''boom''), [''failing''])"
    by (simp add: PostGenerated_init_def failing_fn_def)
  have present: "registry (wc_value (Fixture_fixture (fixture_of 2 sz))) = Some broken_factory"
    for sz
    by (simp add: registry_def fixture_of_def Fixture_init_def)
  have batch_raises:
    "truthy (Fixture_size (fixture_of 2 (PInt 3)))"
    "batch broken_factory (Fixture_size (fixture_of 2 (PInt 3)))
       (Fixture_kwargs (fixture_of 2 (PInt 3))) []
     = (Inl (ParameterError not_registered), [''broken batch''])"
    by (simp_all add: fixture_of_def Fixture_init_def broken_factory_def)
  have build_raises:
    "\<not> truthy (Fixture_size (fixture_of 2 PNone))"
    "build broken_factory (Fixture_kwargs (fixture_of 2 PNone)) []
     = (Inl (ParameterError not_registered), [''broken build''])"
    by (simp_all add: fixture_of_def Fixture_init_def broken_factory_def)
  from to_value_propagates_errors
         [where u = "fst (Use_init failing_fn [] [] [])" and s = "[]"] use_raises
  have a: "Use_to_value (fst (Use_init failing_fn [] [] [])) []
             = (Inl (ValueError ''boom''), fst (Use_init failing_fn [] [] []), [''failing''])"
    by blast
  from to_value_propagates_errors
         [where p = "fst (PostGenerated_init failing_fn [] [] [])" and s = "[]"
               and name = "PStr ''y''" and vals = "PDict []"] post_raises
  have b: "PostGenerated_to_value (fst (PostGenerated_init failing_fn [] [] []))
             (PStr ''y'') (PDict []) []
           = (Inl (ValueError ''boom''), fst (PostGenerated_init failing_fn [] [] []),
              [''failing''])"
    by blast
  from to_value_propagates_errors
         [where factory_class_map = registry and fx = "fixture_of 2 (PInt 3)" and s = "[]"
               and factory = broken_factory] present batch_raises
  have c: "Fixture_to_value registry (fixture_of 2 (PInt 3)) []
             = (Inl (ParameterError not_registered), fixture_of 2 (PInt 3), [''broken batch''])"
    by blast
  from to_value_propagates_errors
         [where factory_class_map = registry and fx = "fixture_of 2 PNone" and s = "[]"
               and factory = broken_factory] present build_raises
  have d: "Fixture_to_value registry (fixture_of 2 PNone) []
             = (Inl (ParameterError not_registered), fixture_of 2 PNone, [''broken build''])"
    by blast
  from a b c d show ?thesis
    by blast
qed

text \<open>
  C8. \<^verbatim>\<open>to_value\<close> leaves the descriptor as it found it, for each of the three classes:
  the object after the call is the object before it, so the wrapped callable, the
  positional and named arguments and, for a \<^verbatim>\<open>Fixture\<close>, the identity and the size are
  the ones set at construction.
\<close>

theorem to_value_keeps_fields:
  "fst (snd (Use_to_value u s)) = u
   \<and> fst (snd (PostGenerated_to_value p name values s)) = p
   \<and> fst (snd (Fixture_to_value factory_class_map fx s)) = fx"
  by (simp add: Use_to_value_def PostGenerated_to_value_def Fixture_to_value_def
      split: prod.splits option.splits)

end
